theory Spec2Isabelle
  imports Complex_Main "HOL-Library.Sublist"
begin

section \<open>Numbers\<close>

text \<open>
  The TypeScript source computes on JavaScript numbers. Document positions and the
  readings of \<^verbatim>\<open>Date.now()\<close> are integers; the two settings are finite numbers and are
  modelled as reals, with exact arithmetic (rounding of doubles is not modelled, and
  negative zero is not distinguished from zero). The one place where a non-finite
  number can arise from finite ones is the division \<^verbatim>\<open>age / totalDuration\<close>; its
  result type therefore has the three non-finite values of a JavaScript number, and
  the operations applied to it afterwards follow the language's rules for them.
\<close>

datatype number = Finite real | PosInfinity | NegInfinity | NaN

text \<open>\<^verbatim>\<open>a / b\<close> on finite numbers.\<close>

definition js_div :: "real \<Rightarrow> real \<Rightarrow> number" where
  "js_div a b =
     (if b \<noteq> 0 then Finite (a / b)
      else if 0 < a then PosInfinity
      else if a < 0 then NegInfinity
      else NaN)"

text \<open>\<^verbatim>\<open>Math.min(x, b)\<close> with a finite second argument.\<close>

fun Math_min :: "number \<Rightarrow> real \<Rightarrow> number" where
  "Math_min (Finite a) b = Finite (min a b)"
| "Math_min PosInfinity b = Finite b"
| "Math_min NegInfinity b = NegInfinity"
| "Math_min NaN b = NaN"

text \<open>\<^verbatim>\<open>x * b\<close> and \<^verbatim>\<open>a + x\<close> with one finite operand.\<close>

fun js_times :: "number \<Rightarrow> real \<Rightarrow> number" where
  "js_times (Finite a) b = Finite (a * b)"
| "js_times PosInfinity b =
     (if 0 < b then PosInfinity else if b < 0 then NegInfinity else NaN)"
| "js_times NegInfinity b =
     (if 0 < b then NegInfinity else if b < 0 then PosInfinity else NaN)"
| "js_times NaN b = NaN"

fun js_plus :: "real \<Rightarrow> number \<Rightarrow> number" where
  "js_plus a (Finite b) = Finite (a + b)"
| "js_plus a PosInfinity = PosInfinity"
| "js_plus a NegInfinity = NegInfinity"
| "js_plus a NaN = NaN"

text \<open>The comparison \<^verbatim>\<open>x <= y\<close>: false as soon as one side is \<^verbatim>\<open>NaN\<close>.\<close>

fun js_le :: "number \<Rightarrow> number \<Rightarrow> bool" where
  "js_le NaN y = False"
| "js_le x NaN = False"
| "js_le NegInfinity y = True"
| "js_le x PosInfinity = True"
| "js_le (Finite a) (Finite b) = (a \<le> b)"
| "js_le (Finite a) NegInfinity = False"
| "js_le PosInfinity y = False"

section \<open>Data\<close>

text \<open>
  \<^verbatim>\<open>interface SettlingRange { from; to; timestamp }\<close>. The fields \<^verbatim>\<open>from\<close> and \<^verbatim>\<open>to\<close>
  are named \<open>range_from\<close> and \<open>range_to\<close> here.
\<close>

record SettlingRange =
  range_from :: int
  range_to :: int
  timestamp :: int

record LingerSettings =
  transitionDuration :: real
  intensity :: real

text \<open>
  A decoration made by \<^verbatim>\<open>Decoration.mark\<close>: its class and its inline style, which is
  either \<^verbatim>\<open>filter: brightness(v);\<close> or \<^verbatim>\<open>opacity: v;\<close>.
\<close>

datatype style = FilterBrightness number | Opacity number

datatype Decoration = Mark string style

text \<open>
  \<^verbatim>\<open>RangeSetBuilder\<close> and \<^verbatim>\<open>DecorationSet\<close> belong to the editor library, which is not
  part of the repository. A builder is modelled by the ranges it has accepted so far,
  in the order of the calls, and \<^verbatim>\<open>finish()\<close> returns them. Whether \<^verbatim>\<open>builder.add\<close>
  throws is the editor's decision: it is a parameter \<open>add\<close> of the model, a predicate
  on the builder's contents and the range offered. A call that throws leaves the
  builder as it was.
\<close>

type_synonym paint = "int \<times> int \<times> Decoration"

type_synonym RangeSetBuilder = "paint list"

type_synonym DecorationSet = "paint list"

type_synonym host_add = "RangeSetBuilder \<Rightarrow> paint \<Rightarrow> bool"

text \<open>
  The four fields of \<^verbatim>\<open>class SettlingViewPlugin\<close>, followed by the part of the browser
  window the class acts on: the timeouts it has set that are still pending, and the
  identifier the next \<^verbatim>\<open>window.setTimeout\<close> will return. Every timeout the class sets
  has the same callback and the same delay of 16 ms, so a pending timeout is
  represented by its identifier.
\<close>

record SettlingViewPlugin =
  decorations :: DecorationSet
  settlingRanges :: "SettlingRange list"
  cleanupTimer :: "nat option"
  settings :: LingerSettings
  timeouts :: "nat list"
  nextTimeout :: nat

text \<open>
  \<^verbatim>\<open>ViewUpdate\<close>: whether the document changed, and the changed spans that
  \<^verbatim>\<open>changes.iterChanges\<close> reports, each as \<open>(fromA, toA, fromB, toB)\<close>.
\<close>

record ViewUpdate =
  docChanged :: bool
  changes :: "(int \<times> int \<times> int \<times> int) list"

section \<open>buildDecorations\<close>

definition totalDuration :: "LingerSettings \<Rightarrow> real" where
  "totalDuration st = transitionDuration st * 1000"

definition age :: "int \<Rightarrow> SettlingRange \<Rightarrow> real" where
  "age now r = real_of_int (now - timestamp r)"

definition progress :: "LingerSettings \<Rightarrow> int \<Rightarrow> SettlingRange \<Rightarrow> number" where
  "progress st now r = Math_min (js_div (age now r) (totalDuration st)) 1"

definition createSettlingMark :: "LingerSettings \<Rightarrow> bool \<Rightarrow> number \<Rightarrow> Decoration" where
  "createSettlingMark st isDark p =
     (if isDark
      then Mark ''settling-text''
             (FilterBrightness (js_plus (1 - intensity st) (js_times p (intensity st))))
      else Mark ''settling-text''
             (Opacity (js_plus (1 - intensity st) (js_times p (intensity st)))))"

text \<open>
  The callback given to \<^verbatim>\<open>settlingRanges.filter\<close>: its result and the builder after it.
\<close>

definition filterCallback ::
  "host_add \<Rightarrow> LingerSettings \<Rightarrow> bool \<Rightarrow> int \<Rightarrow> RangeSetBuilder \<Rightarrow> SettlingRange
     \<Rightarrow> bool \<times> RangeSetBuilder" where
  "filterCallback add st isDark now b r =
     (if age now r > totalDuration st then (False, b)
      else
        let mark = createSettlingMark st isDark (progress st now r);
            p = (range_from r, range_to r, mark)
        in if add b p then (True, b @ [p]) else (False, b))"

text \<open>\<^verbatim>\<open>Array.prototype.filter\<close> with this callback, from the first element on.\<close>

fun filterRanges ::
  "host_add \<Rightarrow> LingerSettings \<Rightarrow> bool \<Rightarrow> int \<Rightarrow> RangeSetBuilder \<Rightarrow> SettlingRange list
     \<Rightarrow> SettlingRange list \<times> RangeSetBuilder" where
  "filterRanges add st isDark now b [] = ([], b)"
| "filterRanges add st isDark now b (r # rs) =
     (case filterCallback add st isDark now b r of
        (keep, b') \<Rightarrow>
          (case filterRanges add st isDark now b' rs of
             (rs', b'') \<Rightarrow> (if keep then r # rs' else rs', b'')))"

text \<open>
  \<^verbatim>\<open>buildDecorations(view, now)\<close>: the decoration set it returns and the plugin with its
  filtered ranges. \<open>isDark\<close> is what \<^verbatim>\<open>isDarkMode(view)\<close> reads from the page.
\<close>

definition buildDecorations ::
  "host_add \<Rightarrow> bool \<Rightarrow> int \<Rightarrow> SettlingViewPlugin \<Rightarrow> DecorationSet \<times> SettlingViewPlugin" where
  "buildDecorations add isDark now w =
     (case filterRanges add (settings w) isDark now [] (settlingRanges w) of
        (rs, b) \<Rightarrow> (b, w\<lparr>settlingRanges := rs\<rparr>))"

section \<open>Timeouts and scheduleCleanup\<close>

definition setTimeout :: "SettlingViewPlugin \<Rightarrow> nat \<times> SettlingViewPlugin" where
  "setTimeout w =
     (nextTimeout w,
      w\<lparr>timeouts := timeouts w @ [nextTimeout w], nextTimeout := Suc (nextTimeout w)\<rparr>)"

definition clearTimeout :: "nat \<Rightarrow> SettlingViewPlugin \<Rightarrow> SettlingViewPlugin" where
  "clearTimeout tid w = w\<lparr>timeouts := removeAll tid (timeouts w)\<rparr>"

text \<open>
  \<^verbatim>\<open>scheduleCleanup(view)\<close> up to the call of \<^verbatim>\<open>setTimeout\<close>; what the timeout runs when
  it fires is \<open>cleanupCallback\<close> below.
\<close>

definition scheduleCleanup :: "SettlingViewPlugin \<Rightarrow> SettlingViewPlugin" where
  "scheduleCleanup w =
     (let w1 = (case cleanupTimer w of None \<Rightarrow> w | Some tid \<Rightarrow> clearTimeout tid w)
      in case setTimeout w1 of (tid', w2) \<Rightarrow> w2\<lparr>cleanupTimer := Some tid'\<rparr>)"

section \<open>update\<close>

text \<open>The callback of \<^verbatim>\<open>iterChanges\<close>: only insertions are tracked.\<close>

definition trackChange ::
  "int \<Rightarrow> SettlingRange list \<Rightarrow> int \<times> int \<times> int \<times> int \<Rightarrow> SettlingRange list" where
  "trackChange now rs c =
     (case c of (fromA, toA, fromB, toB) \<Rightarrow>
        if toB > fromB
        then rs @ [\<lparr>range_from = fromB, range_to = toB, timestamp = now\<rparr>]
        else rs)"

text \<open>\<^verbatim>\<open>update(update)\<close>, with \<open>now\<close> the reading of \<^verbatim>\<open>Date.now()\<close> at its start.\<close>

definition update ::
  "host_add \<Rightarrow> bool \<Rightarrow> int \<Rightarrow> ViewUpdate \<Rightarrow> SettlingViewPlugin \<Rightarrow> SettlingViewPlugin" where
  "update add isDark now u w =
     (let w1 = (if settlingRanges w \<noteq> []
                then (case buildDecorations add isDark now w of
                        (d, w') \<Rightarrow> w'\<lparr>decorations := d\<rparr>)
                else w)
      in if docChanged u
         then
           let w2 = w1\<lparr>settlingRanges := foldl (trackChange now) (settlingRanges w1) (changes u)\<rparr>
           in case buildDecorations add isDark now w2 of
                (d, w3) \<Rightarrow> scheduleCleanup (w3\<lparr>decorations := d\<rparr>)
         else w1)"

section \<open>The timeout's callback\<close>

text \<open>
  \<^verbatim>\<open>view.update([])\<close> asks the editor to repaint. The editor may call the plugin's
  \<^verbatim>\<open>update\<close> back during it, with an update that changes no document; \<open>reentry\<close> is
  the clock reading of that call when it happens.
\<close>

definition view_update_empty ::
  "host_add \<Rightarrow> bool \<Rightarrow> int option \<Rightarrow> SettlingViewPlugin \<Rightarrow> SettlingViewPlugin" where
  "view_update_empty add isDark reentry w =
     (case reentry of
        None \<Rightarrow> w
      | Some now' \<Rightarrow> update add isDark now' \<lparr>docChanged = False, changes = []\<rparr> w)"

definition cleanupCallback ::
  "host_add \<Rightarrow> bool \<Rightarrow> int \<Rightarrow> int option \<Rightarrow> SettlingViewPlugin \<Rightarrow> SettlingViewPlugin" where
  "cleanupCallback add isDark now reentry w =
     (case buildDecorations add isDark now w of
        (d, w1) \<Rightarrow>
          let w2 = view_update_empty add isDark reentry (w1\<lparr>decorations := d\<rparr>)
          in if settlingRanges w2 \<noteq> [] then scheduleCleanup w2 else w2)"

text \<open>
  The window runs a pending timeout: it leaves the table and its callback runs. A
  timeout that is not pending never runs.
\<close>

definition timeoutFires ::
  "nat \<Rightarrow> host_add \<Rightarrow> bool \<Rightarrow> int \<Rightarrow> int option \<Rightarrow> SettlingViewPlugin \<Rightarrow> SettlingViewPlugin" where
  "timeoutFires tid add isDark now reentry w =
     (if tid \<in> set (timeouts w)
      then cleanupCallback add isDark now reentry (w\<lparr>timeouts := removeAll tid (timeouts w)\<rparr>)
      else w)"

section \<open>Constructor, updateSettings, destroy\<close>

text \<open>\<open>n\<close> is the identifier the window gives to the next timeout.\<close>

definition constructor :: "LingerSettings \<Rightarrow> nat \<Rightarrow> SettlingViewPlugin" where
  "constructor st n =
     scheduleCleanup
       \<lparr>decorations = [], settlingRanges = [], cleanupTimer = None, settings = st,
        timeouts = [], nextTimeout = n\<rparr>"

definition updateSettings :: "LingerSettings \<Rightarrow> SettlingViewPlugin \<Rightarrow> SettlingViewPlugin" where
  "updateSettings st w = w\<lparr>settings := st\<rparr>"

definition destroy :: "SettlingViewPlugin \<Rightarrow> SettlingViewPlugin" where
  "destroy w = (case cleanupTimer w of None \<Rightarrow> w | Some tid \<Rightarrow> clearTimeout tid w)"

text \<open>\<^verbatim>\<open>DEFAULT_SETTINGS\<close> of the settings module: 1.5 seconds, intensity 0.4.\<close>

definition DEFAULT_SETTINGS :: LingerSettings where
  "DEFAULT_SETTINGS = \<lparr>transitionDuration = 3 / 2, intensity = 2 / 5\<rparr>"

section \<open>Events\<close>

text \<open>
  What can happen to a plugin after its construction: the editor calls \<^verbatim>\<open>update\<close>, the
  window runs a timeout, the settings are replaced, or the plugin is destroyed. Each
  call carries what it reads from its environment: the editor's \<open>add\<close>, the theme and
  the clock.
\<close>

datatype event =
    Update host_add bool int ViewUpdate
  | Timeout nat host_add bool int "int option"
  | UpdateSettings LingerSettings
  | Destroy

fun step :: "SettlingViewPlugin \<Rightarrow> event \<Rightarrow> SettlingViewPlugin" where
  "step w (Update add isDark now u) = update add isDark now u w"
| "step w (Timeout tid add isDark now reentry) = timeoutFires tid add isDark now reentry w"
| "step w (UpdateSettings st) = updateSettings st w"
| "step w Destroy = destroy w"

definition run :: "SettlingViewPlugin \<Rightarrow> event list \<Rightarrow> SettlingViewPlugin" where
  "run w es = foldl step w es"

text \<open>An event that is an \<^verbatim>\<open>update\<close> call with \<^verbatim>\<open>docChanged\<close> set.\<close>

fun docChange :: "event \<Rightarrow> bool" where
  "docChange (Update add isDark now u) = docChanged u"
| "docChange e = False"

section \<open>Editors\<close>

text \<open>
  Instances of the parameter \<open>add\<close>, used to run the model on concrete inputs. The
  first is the rule of the editor library itself: its \<^verbatim>\<open>RangeSetBuilder.add\<close> throws
  \<^verbatim>\<open>Ranges must be added sorted by `from` position and `startSide`\<close> when the range
  offered starts before the last range it has accepted. Every mark of this plugin has
  the same sides, so the \<^verbatim>\<open>from\<close> positions decide.
\<close>

definition sorted_add :: host_add where
  "sorted_add b p = (b = [] \<or> fst (last b) \<le> fst p)"

text \<open>
  Two more: an editor that accepts every range, and one that rejects a range
  reaching outside a document of length \<open>len\<close>.
\<close>

definition accept_all :: host_add where
  "accept_all b p = True"

definition in_bounds :: "int \<Rightarrow> host_add" where
  "in_bounds len b p = (case p of (f, t, m) \<Rightarrow> 0 \<le> f \<and> t \<le> len)"

section \<open>The progress of the specification\<close>

text \<open>
  The progress of the specification, \<open>clamp((now - createdAt) / (transitionDuration * 1000), 0, 1)\<close>,
  written from its words for the comparison with \<open>progress\<close>.
\<close>

definition clamp :: "real \<Rightarrow> real \<Rightarrow> real \<Rightarrow> real" where
  "clamp x lo hi = max lo (min x hi)"

definition spec_progress :: "LingerSettings \<Rightarrow> int \<Rightarrow> SettlingRange \<Rightarrow> real" where
  "spec_progress st now r =
     clamp (real_of_int (now - timestamp r) / (transitionDuration st * 1000)) 0 1"

section \<open>The mark of the specification\<close>

text \<open>
  The style the specification describes: the value \<open>v\<close> on the brightness channel in
  dark mode and on the opacity channel in light mode, written from its words for the
  comparison with \<open>createSettlingMark\<close>.
\<close>

definition styled_mark :: "bool \<Rightarrow> real \<Rightarrow> Decoration" where
  "styled_mark isDark v =
     Mark ''settling-text'' (if isDark then FilterBrightness (Finite v) else Opacity (Finite v))"

section \<open>One timeout at a time\<close>

text \<open>
  The pending timeouts of a plugin are at most the one its \<open>cleanupTimer\<close> names:
  \<open>scheduleCleanup\<close> clears that one before it sets the next.
\<close>

definition timer_inv :: "SettlingViewPlugin \<Rightarrow> bool" where
  "timer_inv w = (set (timeouts w) \<subseteq> set_option (cleanupTimer w))"

section \<open>The filter pass\<close>

lemma fst_filterRanges_Cons:
  "fst (filterRanges add st isDark now b (r # rs)) =
     (if fst (filterCallback add st isDark now b r)
      then r # fst (filterRanges add st isDark now (snd (filterCallback add st isDark now b r)) rs)
      else fst (filterRanges add st isDark now (snd (filterCallback add st isDark now b r)) rs))"
  by (simp split: prod.splits)

lemma snd_filterRanges_Cons:
  "snd (filterRanges add st isDark now b (r # rs)) =
     snd (filterRanges add st isDark now (snd (filterCallback add st isDark now b r)) rs)"
  by (simp split: prod.splits)

declare filterRanges.simps(2) [simp del]

lemmas run_defs =
  buildDecorations_def filterRanges.simps filterCallback_def age_def totalDuration_def
  progress_def createSettlingMark_def js_div_def Let_def DEFAULT_SETTINGS_def
  accept_all_def in_bounds_def sorted_add_def

lemmas timer_defs =
  constructor_def scheduleCleanup_def setTimeout_def clearTimeout_def timeoutFires_def
  cleanupCallback_def view_update_empty_def update_def trackChange_def run_def

lemma filterCallback_keep:
  "fst (filterCallback add st isDark now b r) \<Longrightarrow> age now r \<le> totalDuration st"
  by (simp add: filterCallback_def Let_def split: if_splits)

lemma filterCallback_reject:
  "\<not> fst (filterCallback add st isDark now b r) \<Longrightarrow>
   snd (filterCallback add st isDark now b r) = b"
  by (simp add: filterCallback_def Let_def split: if_splits)

lemma filterRanges_subseq:
  "subseq (fst (filterRanges add st isDark now b rs)) rs"
proof (induction rs arbitrary: b)
  case Nil
  show ?case by simp
next
  case (Cons x xs)
  show ?case
    using Cons.IH by (auto simp: fst_filterRanges_Cons)
qed

lemma filterRanges_young:
  "r \<in> set (fst (filterRanges add st isDark now b rs)) \<Longrightarrow> age now r \<le> totalDuration st"
proof (induction rs arbitrary: b)
  case Nil
  then show ?case by simp
next
  case (Cons x xs)
  show ?case
  proof (cases "fst (filterCallback add st isDark now b x)")
    case True
    with Cons.prems have "r = x \<or>
        r \<in> set (fst (filterRanges add st isDark now (snd (filterCallback add st isDark now b x)) xs))"
      by (simp add: fst_filterRanges_Cons)
    then show ?thesis
      using True Cons.IH filterCallback_keep by blast
  next
    case False
    with Cons.prems show ?thesis
      using Cons.IH by (simp add: fst_filterRanges_Cons)
  qed
qed

text \<open>Filtering the survivors again, from the same builder, changes nothing.\<close>

lemma filterRanges_again:
  "filterRanges add st isDark now b (fst (filterRanges add st isDark now b rs)) =
     filterRanges add st isDark now b rs"
proof (induction rs arbitrary: b)
  case Nil
  show ?case by simp
next
  case (Cons x xs)
  show ?case
  proof (cases "fst (filterCallback add st isDark now b x)")
    case True
    then show ?thesis
      using Cons.IH [of "snd (filterCallback add st isDark now b x)"]
      by (simp add: fst_filterRanges_Cons prod_eq_iff snd_filterRanges_Cons)
  next
    case False
    then show ?thesis
      using Cons.IH [of b] filterCallback_reject [OF False]
      by (simp add: fst_filterRanges_Cons prod_eq_iff snd_filterRanges_Cons)
  qed
qed

text \<open>The pass over a concatenation continues with the builder the first part left.\<close>

lemma filterRanges_append:
  "filterRanges add st isDark now b (xs @ ys) =
     (fst (filterRanges add st isDark now b xs) @
        fst (filterRanges add st isDark now (snd (filterRanges add st isDark now b xs)) ys),
      snd (filterRanges add st isDark now (snd (filterRanges add st isDark now b xs)) ys))"
proof (induction xs arbitrary: b)
  case Nil
  show ?case by simp
next
  case (Cons x xs)
  show ?case
    using Cons.IH [of "snd (filterCallback add st isDark now b x)"]
    by (simp add: prod_eq_iff fst_filterRanges_Cons snd_filterRanges_Cons)
qed

text \<open>An interval the callback drops might as well not have been in the list.\<close>

lemma filterRanges_skip:
  assumes "\<not> fst (filterCallback add st isDark now (snd (filterRanges add st isDark now b pre)) x)"
  shows "filterRanges add st isDark now b (pre @ x # post) =
           filterRanges add st isDark now b (pre @ post)"
  using assms filterCallback_reject [OF assms]
  by (simp add: filterRanges_append [of _ _ _ _ _ pre] prod_eq_iff
      fst_filterRanges_Cons snd_filterRanges_Cons)

text \<open>The builder ends with one range per survivor, in their order.\<close>

lemma filterRanges_paints:
  "snd (filterRanges add st isDark now b rs) =
     b @ map (\<lambda>r. (range_from r, range_to r, createSettlingMark st isDark (progress st now r)))
           (fst (filterRanges add st isDark now b rs))"
proof (induction rs arbitrary: b)
  case Nil
  show ?case by simp
next
  case (Cons x xs)
  show ?case
    using Cons.IH [of "snd (filterCallback add st isDark now b x)"]
    by (simp add: fst_filterRanges_Cons snd_filterRanges_Cons)
       (simp add: filterCallback_def Let_def)
qed

section \<open>Pruning\<close>

text \<open>
  Claim C1. A pass of \<open>buildDecorations\<close> at time \<open>now\<close> only removes intervals (the
  working set after it is a subsequence of the one before), every interval it leaves
  has an age \<open>now - timestamp\<close> of at most \<open>transitionDuration * 1000\<close> milliseconds, and
  every interval older than that is gone.
\<close>

theorem prune_removes_expired:
  "subseq (settlingRanges (snd (buildDecorations add isDark now w))) (settlingRanges w) \<and>
   (\<forall>r \<in> set (settlingRanges (snd (buildDecorations add isDark now w))).
      real_of_int (now - timestamp r) \<le> transitionDuration (settings w) * 1000) \<and>
   (\<forall>r \<in> set (settlingRanges w).
      real_of_int (now - timestamp r) > transitionDuration (settings w) * 1000 \<longrightarrow>
      r \<notin> set (settlingRanges (snd (buildDecorations add isDark now w))))"
proof -
  let ?rs = "settlingRanges (snd (buildDecorations add isDark now w))"
  let ?total = "transitionDuration (settings w) * 1000"
  have rs: "?rs = fst (filterRanges add (settings w) isDark now [] (settlingRanges w))"
    by (simp add: buildDecorations_def case_prod_unfold)
  have sub: "subseq ?rs (settlingRanges w)"
    unfolding rs by (rule filterRanges_subseq)
  have young: "real_of_int (now - timestamp r) \<le> ?total" if "r \<in> set ?rs" for r
    using filterRanges_young [of r add "settings w" isDark now "[]" "settlingRanges w"] that
    unfolding rs age_def totalDuration_def by simp
  have gone: "r \<notin> set ?rs" if "real_of_int (now - timestamp r) > ?total" for r
    using young [of r] that by auto
  show ?thesis
    using sub young gone by blast
qed

theorem prune_removes_expired_witness:
  "settlingRanges (snd (buildDecorations accept_all False 2000
      \<lparr>decorations = [],
       settlingRanges = [\<lparr>range_from = 0, range_to = 5, timestamp = 0\<rparr>,
                         \<lparr>range_from = 5, range_to = 9, timestamp = 1000\<rparr>],
       cleanupTimer = Some 0, settings = DEFAULT_SETTINGS, timeouts = [0], nextTimeout = 1\<rparr>))
     = [\<lparr>range_from = 5, range_to = 9, timestamp = 1000\<rparr>] \<and>
   real_of_int (2000 - timestamp \<lparr>range_from = 5, range_to = 9, timestamp = 1000\<rparr>)
     \<le> transitionDuration DEFAULT_SETTINGS * 1000 \<and>
   transitionDuration DEFAULT_SETTINGS * 1000
     < real_of_int (2000 - timestamp \<lparr>range_from = 0, range_to = 5, timestamp = 0\<rparr>)"
proof -
  let ?w = "\<lparr>decorations = [],
       settlingRanges = [\<lparr>range_from = 0, range_to = 5, timestamp = 0\<rparr>,
                         \<lparr>range_from = 5, range_to = 9, timestamp = 1000\<rparr>],
       cleanupTimer = Some 0, settings = DEFAULT_SETTINGS, timeouts = [0], nextTimeout = 1\<rparr>"
  have ev: "settlingRanges (snd (buildDecorations accept_all False 2000 ?w))
     = [\<lparr>range_from = 5, range_to = 9, timestamp = 1000\<rparr>]"
    by (simp add: run_defs)
  show ?thesis
    using prune_removes_expired [of accept_all False 2000 ?w]
    unfolding ev by (simp add: DEFAULT_SETTINGS_def)
qed

text \<open>
  Claim C7. Running the pass a second time at the same \<open>now\<close>, on the plugin the first
  pass left, returns the same decorations and leaves the same working set.
\<close>

theorem prune_idempotent:
  "buildDecorations add isDark now (snd (buildDecorations add isDark now w)) =
     buildDecorations add isDark now w"
  by (simp add: buildDecorations_def case_prod_unfold filterRanges_again)

section \<open>Progress\<close>

text \<open>With a duration other than zero the division is finite, and so is the progress.\<close>

lemma progress_finite:
  "transitionDuration st \<noteq> 0 \<Longrightarrow>
   progress st now r =
     Finite (min (real_of_int (now - timestamp r) / (transitionDuration st * 1000)) 1)"
  by (simp add: progress_def js_div_def age_def totalDuration_def)

text \<open>
  Claim C2. The source departs from it. Its comments give the progress the scale
  \<open>0 = just typed, 1 = fully settled\<close> and call \<open>1 - intensity\<close> the minimum
  brightness and opacity, but \<open>Math.min(age / totalDuration, 1)\<close> bounds the progress
  from above only. When the clock reads less than the interval's timestamp the
  interval survives the pass with a negative progress: here \<open>now = 0\<close>, the timestamp
  is 1000 and the duration 1.5 s, the progress is \<open>- 2 / 3\<close> where the clamped value of
  the specification is 0, and the opacity emitted is \<open>1 / 3\<close>, below the minimum
  \<open>3 / 5\<close>.
\<close>

theorem progress_negative_when_clock_steps_back:
  "buildDecorations sorted_add False 0
      \<lparr>decorations = [],
       settlingRanges = [\<lparr>range_from = 0, range_to = 5, timestamp = 1000\<rparr>],
       cleanupTimer = Some 0, settings = DEFAULT_SETTINGS, timeouts = [0], nextTimeout = 1\<rparr>
     = ([(0, 5, Mark ''settling-text'' (Opacity (Finite (1 / 3))))],
        \<lparr>decorations = [],
         settlingRanges = [\<lparr>range_from = 0, range_to = 5, timestamp = 1000\<rparr>],
         cleanupTimer = Some 0, settings = DEFAULT_SETTINGS, timeouts = [0], nextTimeout = 1\<rparr>) \<and>
   progress DEFAULT_SETTINGS 0 \<lparr>range_from = 0, range_to = 5, timestamp = 1000\<rparr>
     = Finite (- 2 / 3) \<and>
   spec_progress DEFAULT_SETTINGS 0 \<lparr>range_from = 0, range_to = 5, timestamp = 1000\<rparr> = 0 \<and>
   \<not> js_le (Finite 0)
       (progress DEFAULT_SETTINGS 0 \<lparr>range_from = 0, range_to = 5, timestamp = 1000\<rparr>)"
  by (simp add: run_defs spec_progress_def clamp_def)

text \<open>
  With a positive duration the progress is never above 1, and while the clock has not
  gone back behind the timestamp it is the clamped value of the specification.
\<close>

lemma progress_clamped:
  assumes "0 < transitionDuration st"
  shows "js_le (progress st now r) (Finite 1) \<and>
         (timestamp r \<le> now \<longrightarrow>
            progress st now r = Finite (spec_progress st now r) \<and>
            js_le (Finite 0) (progress st now r))"
proof -
  let ?q = "real_of_int (now - timestamp r) / (transitionDuration st * 1000)"
  have fin: "progress st now r = Finite (min ?q 1)"
    using assms by (simp add: progress_finite)
  have pos: "0 \<le> ?q" if "timestamp r \<le> now"
    using assms that by simp
  have spec: "spec_progress st now r = min ?q 1" if "timestamp r \<le> now"
    using pos [OF that] by (simp add: spec_progress_def clamp_def)
  show ?thesis
    using fin pos spec by (auto simp: min_def)
qed

text \<open>
  Claim C8. For a positive \<open>transitionDuration\<close>, the progress of a fixed interval
  does not decrease with time: at \<open>t1 < t2\<close> the progress at \<open>t2\<close> is at least the one at
  \<open>t1\<close>.
\<close>

theorem progress_monotone:
  assumes "0 < transitionDuration st" and "t1 < t2"
  shows "js_le (progress st t1 r) (progress st t2 r)"
proof -
  have "real_of_int (t1 - timestamp r) / (transitionDuration st * 1000)
          \<le> real_of_int (t2 - timestamp r) / (transitionDuration st * 1000)"
    using assms by (simp add: divide_right_mono)
  then have "min (real_of_int (t1 - timestamp r) / (transitionDuration st * 1000)) 1
          \<le> min (real_of_int (t2 - timestamp r) / (transitionDuration st * 1000)) 1"
    by (rule min.mono) simp
  moreover have nz: "transitionDuration st \<noteq> 0"
    using assms(1) by simp
  ultimately show ?thesis
    unfolding progress_finite [OF nz] by simp
qed

theorem progress_monotone_witness:
  "js_le (progress DEFAULT_SETTINGS 300 \<lparr>range_from = 0, range_to = 5, timestamp = 0\<rparr>)
         (progress DEFAULT_SETTINGS 900 \<lparr>range_from = 0, range_to = 5, timestamp = 0\<rparr>) \<and>
   progress DEFAULT_SETTINGS 300 \<lparr>range_from = 0, range_to = 5, timestamp = 0\<rparr> = Finite (1 / 5) \<and>
   progress DEFAULT_SETTINGS 900 \<lparr>range_from = 0, range_to = 5, timestamp = 0\<rparr> = Finite (3 / 5)"
  using progress_monotone [of DEFAULT_SETTINGS 300 900 "\<lparr>range_from = 0, range_to = 5, timestamp = 0\<rparr>"]
  by (simp add: run_defs)

section \<open>Ranges the editor rejects\<close>

text \<open>
  Claim C4. When \<open>builder.add\<close> throws for an interval \<open>x\<close> of the working set (the
  builder then holds the decorations of the intervals before \<open>x\<close>), the pass returns
  what it returns on the working set without \<open>x\<close>: the interval is left out of the
  decorations and of the working set, and nothing else changes. The pass has no error
  result, and its decorations are those of the surviving intervals, one each, in order.
\<close>

theorem invalid_span_dropped:
  assumes "settlingRanges w = pre @ x # post"
    and "\<not> add (fst (buildDecorations add isDark now (w\<lparr>settlingRanges := pre\<rparr>)))
              (range_from x, range_to x,
               createSettlingMark (settings w) isDark (progress (settings w) now x))"
  shows "buildDecorations add isDark now w =
           buildDecorations add isDark now (w\<lparr>settlingRanges := pre @ post\<rparr>) \<and>
         fst (buildDecorations add isDark now w) =
           map (\<lambda>r. (range_from r, range_to r,
                      createSettlingMark (settings w) isDark (progress (settings w) now r)))
             (settlingRanges (snd (buildDecorations add isDark now w)))"
proof -
  have "\<not> fst (filterCallback add (settings w) isDark now
                 (snd (filterRanges add (settings w) isDark now [] pre)) x)"
    using assms(2) by (simp add: buildDecorations_def case_prod_unfold filterCallback_def Let_def)
  then have "filterRanges add (settings w) isDark now [] (pre @ x # post) =
             filterRanges add (settings w) isDark now [] (pre @ post)"
    by (rule filterRanges_skip)
  then have "buildDecorations add isDark now w =
             buildDecorations add isDark now (w\<lparr>settlingRanges := pre @ post\<rparr>)"
    using assms(1) by (simp add: buildDecorations_def case_prod_unfold)
  moreover have "fst (buildDecorations add isDark now w) =
           map (\<lambda>r. (range_from r, range_to r,
                      createSettlingMark (settings w) isDark (progress (settings w) now r)))
             (settlingRanges (snd (buildDecorations add isDark now w)))"
    using filterRanges_paints [of add "settings w" isDark now "[]" "settlingRanges w"]
    by (simp add: buildDecorations_def case_prod_unfold)
  ultimately show ?thesis by simp
qed

theorem invalid_span_dropped_witness:
  "buildDecorations (in_bounds 20) True 300
     \<lparr>decorations = [],
      settlingRanges = [\<lparr>range_from = 0, range_to = 5, timestamp = 0\<rparr>,
                        \<lparr>range_from = 18, range_to = 25, timestamp = 0\<rparr>,
                        \<lparr>range_from = 6, range_to = 8, timestamp = 300\<rparr>],
      cleanupTimer = Some 0, settings = DEFAULT_SETTINGS, timeouts = [0], nextTimeout = 1\<rparr> =
   ([(0, 5, Mark ''settling-text'' (FilterBrightness (Finite (17 / 25)))),
     (6, 8, Mark ''settling-text'' (FilterBrightness (Finite (3 / 5))))],
    \<lparr>decorations = [],
      settlingRanges = [\<lparr>range_from = 0, range_to = 5, timestamp = 0\<rparr>,
                        \<lparr>range_from = 6, range_to = 8, timestamp = 300\<rparr>],
      cleanupTimer = Some 0, settings = DEFAULT_SETTINGS, timeouts = [0], nextTimeout = 1\<rparr>) \<and>
   \<not> in_bounds 20 [(0, 5, Mark ''settling-text'' (FilterBrightness (Finite (17 / 25))))]
       (18, 25, Mark ''settling-text'' (FilterBrightness (Finite (17 / 25))))"
  using invalid_span_dropped [of
     "\<lparr>decorations = [],
      settlingRanges = [\<lparr>range_from = 0, range_to = 5, timestamp = 0\<rparr>,
                        \<lparr>range_from = 18, range_to = 25, timestamp = 0\<rparr>,
                        \<lparr>range_from = 6, range_to = 8, timestamp = 300\<rparr>],
      cleanupTimer = Some 0, settings = DEFAULT_SETTINGS, timeouts = [0], nextTimeout = 1\<rparr>"
     "[\<lparr>range_from = 0, range_to = 5, timestamp = 0\<rparr>]"
     "\<lparr>range_from = 18, range_to = 25, timestamp = 0\<rparr>"
     "[\<lparr>range_from = 6, range_to = 8, timestamp = 300\<rparr>]"
     "in_bounds 20" True 300]
  by (simp add: run_defs)

section \<open>Replacing the settings\<close>

text \<open>
  Claim C10. \<open>updateSettings\<close> changes the settings and nothing else: decorations,
  working set, timer handle and pending timeouts stay as they were. The next pass
  filters the unchanged working set with the new settings.
\<close>

theorem updateSettings_frame:
  "decorations (updateSettings st w) = decorations w \<and>
   settlingRanges (updateSettings st w) = settlingRanges w \<and>
   cleanupTimer (updateSettings st w) = cleanupTimer w \<and>
   timeouts (updateSettings st w) = timeouts w \<and>
   nextTimeout (updateSettings st w) = nextTimeout w \<and>
   settings (updateSettings st w) = st \<and>
   fst (buildDecorations add isDark now (updateSettings st w)) =
     snd (filterRanges add st isDark now [] (settlingRanges w)) \<and>
   settlingRanges (snd (buildDecorations add isDark now (updateSettings st w))) =
     fst (filterRanges add st isDark now [] (settlingRanges w))"
  by (simp add: updateSettings_def buildDecorations_def case_prod_unfold)

section \<open>Updates and timeouts\<close>

text \<open>What \<open>buildDecorations\<close> and \<open>scheduleCleanup\<close> leave alone.\<close>

lemma buildDecorations_frame:
  "timeouts (snd (buildDecorations add isDark now w)) = timeouts w"
  "cleanupTimer (snd (buildDecorations add isDark now w)) = cleanupTimer w"
  "nextTimeout (snd (buildDecorations add isDark now w)) = nextTimeout w"
  "settings (snd (buildDecorations add isDark now w)) = settings w"
  "decorations (snd (buildDecorations add isDark now w)) = decorations w"
  by (simp_all add: buildDecorations_def case_prod_unfold)

lemma buildDecorations_subseq:
  "subseq (settlingRanges (snd (buildDecorations add isDark now w))) (settlingRanges w)"
  by (simp add: buildDecorations_def case_prod_unfold filterRanges_subseq)

lemma buildDecorations_empty:
  "settlingRanges w = [] \<Longrightarrow> settlingRanges (snd (buildDecorations add isDark now w)) = []"
  by (simp add: buildDecorations_def)

lemma scheduleCleanup_frame:
  "settlingRanges (scheduleCleanup w) = settlingRanges w"
  "decorations (scheduleCleanup w) = decorations w"
  "settings (scheduleCleanup w) = settings w"
  "cleanupTimer (scheduleCleanup w) = Some (nextTimeout w)"
  "nextTimeout (scheduleCleanup w) = Suc (nextTimeout w)"
  by (simp_all add: scheduleCleanup_def setTimeout_def clearTimeout_def split: option.splits)

lemma scheduleCleanup_timeouts:
  "timeouts (scheduleCleanup w) =
     (case cleanupTimer w of None \<Rightarrow> timeouts w | Some tid \<Rightarrow> removeAll tid (timeouts w))
       @ [nextTimeout w]"
  by (simp add: scheduleCleanup_def setTimeout_def clearTimeout_def split: option.splits)

text \<open>The first part of \<open>update\<close>: the rebuild when the working set is not empty.\<close>

lemma update_unchanged_doc:
  "\<not> docChanged u \<Longrightarrow>
   update add isDark now u w =
     (if settlingRanges w \<noteq> []
      then (snd (buildDecorations add isDark now w))
             \<lparr>decorations := fst (buildDecorations add isDark now w)\<rparr>
      else w)"
  by (simp add: update_def case_prod_unfold)

lemma update_changed_doc:
  "docChanged u \<Longrightarrow>
   update add isDark now u w =
     (let w1 = (if settlingRanges w \<noteq> []
                then (snd (buildDecorations add isDark now w))
                       \<lparr>decorations := fst (buildDecorations add isDark now w)\<rparr>
                else w);
          w2 = w1\<lparr>settlingRanges := foldl (trackChange now) (settlingRanges w1) (changes u)\<rparr>
      in scheduleCleanup ((snd (buildDecorations add isDark now w2))
                            \<lparr>decorations := fst (buildDecorations add isDark now w2)\<rparr>))"
  by (simp add: update_def case_prod_unfold Let_def)

lemma trackChange_degenerate:
  "\<forall>c \<in> set cs. (case c of (fromA, toA, fromB, toB) \<Rightarrow> toB \<le> fromB) \<Longrightarrow>
   foldl (trackChange now) rs cs = rs"
  by (induction cs arbitrary: rs) (auto simp: trackChange_def)

text \<open>An update whose spans are all degenerate adds nothing to the working set.\<close>

lemma update_all_degenerate:
  assumes "\<forall>c \<in> set (changes u). (case c of (fromA, toA, fromB, toB) \<Rightarrow> toB \<le> fromB)"
  shows "subseq (settlingRanges (update add isDark now u w)) (settlingRanges w) \<and>
         (docChanged u \<longrightarrow>
            cleanupTimer (update add isDark now u w) = Some (nextTimeout w) \<and>
            nextTimeout w \<in> set (timeouts (update add isDark now u w))) \<and>
         (\<not> docChanged u \<longrightarrow>
            cleanupTimer (update add isDark now u w) = cleanupTimer w \<and>
            timeouts (update add isDark now u w) = timeouts w)"
proof (cases "docChanged u")
  case False
  then show ?thesis
    by (simp add: update_unchanged_doc buildDecorations_frame buildDecorations_subseq)
next
  case True
  define w1 where "w1 = (if settlingRanges w \<noteq> []
                then (snd (buildDecorations add isDark now w))
                       \<lparr>decorations := fst (buildDecorations add isDark now w)\<rparr>
                else w)"
  have sub1: "subseq (settlingRanges w1) (settlingRanges w)"
    by (simp add: w1_def buildDecorations_subseq)
  have fr1: "nextTimeout w1 = nextTimeout w"
    by (simp add: w1_def buildDecorations_frame)
  have w2: "w1\<lparr>settlingRanges := foldl (trackChange now) (settlingRanges w1) (changes u)\<rparr> = w1"
    using trackChange_degenerate [OF assms] by simp
  have upd: "update add isDark now u w =
      scheduleCleanup ((snd (buildDecorations add isDark now w1))
                            \<lparr>decorations := fst (buildDecorations add isDark now w1)\<rparr>)"
    using True w2 by (simp add: update_changed_doc Let_def w1_def [symmetric])
  have "subseq (settlingRanges (update add isDark now u w)) (settlingRanges w1)"
    by (simp add: upd scheduleCleanup_frame buildDecorations_subseq)
  then have "subseq (settlingRanges (update add isDark now u w)) (settlingRanges w)"
    using sub1 by (rule subseq_order.trans)
  moreover have "cleanupTimer (update add isDark now u w) = Some (nextTimeout w)"
    by (simp add: upd scheduleCleanup_frame buildDecorations_frame fr1)
  moreover have "nextTimeout w \<in> set (timeouts (update add isDark now u w))"
    by (simp add: upd scheduleCleanup_timeouts buildDecorations_frame fr1)
  ultimately show ?thesis
    using True by simp
qed

text \<open>A degenerate span leaves the list the callback of \<open>iterChanges\<close> builds as it was.\<close>

lemma trackChange_skip:
  assumes "toB \<le> fromB"
  shows "foldl (trackChange now) rs (cs1 @ (fromA, toA, fromB, toB) # cs2) =
         foldl (trackChange now) rs (cs1 @ cs2)"
  using assms by (simp add: trackChange_def)

lemma update_changes_cong:
  assumes "\<And>rs. foldl (trackChange now) rs cs = foldl (trackChange now) rs cs'"
  shows "update add isDark now (u\<lparr>changes := cs\<rparr>) w = update add isDark now (u\<lparr>changes := cs'\<rparr>) w"
  using assms by (simp add: update_def)

text \<open>A document change sets a timeout, whatever it reports; another update sets none.\<close>

lemma update_timer:
  "docChanged u \<Longrightarrow>
   cleanupTimer (update add isDark now u w) = Some (nextTimeout w) \<and>
   nextTimeout w \<in> set (timeouts (update add isDark now u w))"
  by (simp add: update_changed_doc Let_def scheduleCleanup_frame scheduleCleanup_timeouts
      buildDecorations_frame)

lemma update_no_timer:
  "\<not> docChanged u \<Longrightarrow>
   cleanupTimer (update add isDark now u w) = cleanupTimer w \<and>
   timeouts (update add isDark now u w) = timeouts w"
  by (simp add: update_unchanged_doc buildDecorations_frame)

text \<open>
  Claim C5, amended. A reported span with \<open>toB \<le> fromB\<close> adds no interval, in whatever
  update it stands: the update has the result it has without that span, and an update
  reporting only that span leaves a subsequence of the working set. The timeout is
  another matter: a document change calls \<open>scheduleCleanup\<close> whatever its spans, so the
  update sets a new timeout and makes it the plugin's \<open>cleanupTimer\<close>; an update that
  changes no document leaves timer and timeouts as they were.
\<close>

theorem degenerate_span_ignored:
  assumes "toB \<le> fromB"
  shows "update add isDark now (u\<lparr>changes := cs1 @ (fromA, toA, fromB, toB) # cs2\<rparr>) w =
           update add isDark now (u\<lparr>changes := cs1 @ cs2\<rparr>) w \<and>
         subseq (settlingRanges (update add isDark now (u\<lparr>changes := [(fromA, toA, fromB, toB)]\<rparr>) w))
           (settlingRanges w) \<and>
         (docChanged u \<longrightarrow>
            cleanupTimer (update add isDark now (u\<lparr>changes := cs1 @ (fromA, toA, fromB, toB) # cs2\<rparr>) w)
              = Some (nextTimeout w) \<and>
            nextTimeout w \<in>
              set (timeouts (update add isDark now (u\<lparr>changes := cs1 @ (fromA, toA, fromB, toB) # cs2\<rparr>) w))) \<and>
         (\<not> docChanged u \<longrightarrow>
            cleanupTimer (update add isDark now (u\<lparr>changes := cs1 @ (fromA, toA, fromB, toB) # cs2\<rparr>) w)
              = cleanupTimer w \<and>
            timeouts (update add isDark now (u\<lparr>changes := cs1 @ (fromA, toA, fromB, toB) # cs2\<rparr>) w)
              = timeouts w)"
proof -
  let ?c = "(fromA, toA, fromB, toB)"
  have eq: "update add isDark now (u\<lparr>changes := cs1 @ ?c # cs2\<rparr>) w =
           update add isDark now (u\<lparr>changes := cs1 @ cs2\<rparr>) w"
    by (rule update_changes_cong) (rule trackChange_skip [OF assms])
  have "\<forall>c \<in> set (changes (u\<lparr>changes := [?c]\<rparr>)).
          (case c of (fromA, toA, fromB, toB) \<Rightarrow> toB \<le> fromB)"
    using assms by simp
  then have sub: "subseq (settlingRanges (update add isDark now (u\<lparr>changes := [?c]\<rparr>) w))
           (settlingRanges w)"
    using update_all_degenerate by blast
  show ?thesis
    using eq sub update_timer [of "u\<lparr>changes := cs1 @ ?c # cs2\<rparr>" add isDark now w]
      update_no_timer [of "u\<lparr>changes := cs1 @ ?c # cs2\<rparr>" add isDark now w]
    by simp
qed

theorem degenerate_span_ignored_witness:
  "settlingRanges (update accept_all False 100
      \<lparr>docChanged = True, changes = [(5, 5, 5, 7), (8, 9, 8, 8)]\<rparr>
      \<lparr>decorations = [],
       settlingRanges = [\<lparr>range_from = 0, range_to = 5, timestamp = 0\<rparr>],
       cleanupTimer = Some 3, settings = DEFAULT_SETTINGS, timeouts = [3], nextTimeout = 4\<rparr>)
     = [\<lparr>range_from = 0, range_to = 5, timestamp = 0\<rparr>,
        \<lparr>range_from = 5, range_to = 7, timestamp = 100\<rparr>] \<and>
   update accept_all False 100
      \<lparr>docChanged = True, changes = [(5, 5, 5, 7), (8, 9, 8, 8)]\<rparr>
      \<lparr>decorations = [],
       settlingRanges = [\<lparr>range_from = 0, range_to = 5, timestamp = 0\<rparr>],
       cleanupTimer = Some 3, settings = DEFAULT_SETTINGS, timeouts = [3], nextTimeout = 4\<rparr>
     = update accept_all False 100
      \<lparr>docChanged = True, changes = [(5, 5, 5, 7)]\<rparr>
      \<lparr>decorations = [],
       settlingRanges = [\<lparr>range_from = 0, range_to = 5, timestamp = 0\<rparr>],
       cleanupTimer = Some 3, settings = DEFAULT_SETTINGS, timeouts = [3], nextTimeout = 4\<rparr> \<and>
   cleanupTimer (update accept_all False 100
      \<lparr>docChanged = True, changes = [(5, 5, 5, 7), (8, 9, 8, 8)]\<rparr>
      \<lparr>decorations = [],
       settlingRanges = [\<lparr>range_from = 0, range_to = 5, timestamp = 0\<rparr>],
       cleanupTimer = Some 3, settings = DEFAULT_SETTINGS, timeouts = [3], nextTimeout = 4\<rparr>)
     = Some 4 \<and>
   timeouts (update accept_all False 100
      \<lparr>docChanged = True, changes = [(5, 5, 5, 7), (8, 9, 8, 8)]\<rparr>
      \<lparr>decorations = [],
       settlingRanges = [\<lparr>range_from = 0, range_to = 5, timestamp = 0\<rparr>],
       cleanupTimer = Some 3, settings = DEFAULT_SETTINGS, timeouts = [3], nextTimeout = 4\<rparr>)
     = [4]"
proof -
  have le: "(8::int) \<le> 8"
    by simp
  show ?thesis
    using degenerate_span_ignored [OF le, where add = accept_all and isDark = False
        and now = 100 and u = "\<lparr>docChanged = True, changes = []\<rparr>"
        and ?cs1.0 = "[(5, 5, 5, 7)]" and fromA = 8 and toA = 9 and ?cs2.0 = "[]"
        and w = "\<lparr>decorations = [],
          settlingRanges = [\<lparr>range_from = 0, range_to = 5, timestamp = 0\<rparr>],
          cleanupTimer = Some 3, settings = DEFAULT_SETTINGS, timeouts = [3], nextTimeout = 4\<rparr>"]
    by (simp add: timer_defs run_defs)
qed

text \<open>
  Claim C5, as stated, fails in its second half. The plugin below has been constructed
  and its first timeout has run, so nothing is pending. An update then reports a
  deletion, whose only span has \<open>toB = fromB\<close>: no interval is tracked, yet timeout 1
  is pending after it.
\<close>

theorem degenerate_span_counterexample:
  "timeouts (timeoutFires 0 accept_all False 16 None (constructor DEFAULT_SETTINGS 0)) = [] \<and>
   timeouts (update accept_all False 100 \<lparr>docChanged = True, changes = [(5, 6, 5, 5)]\<rparr>
               (timeoutFires 0 accept_all False 16 None (constructor DEFAULT_SETTINGS 0))) = [1] \<and>
   cleanupTimer (update accept_all False 100 \<lparr>docChanged = True, changes = [(5, 6, 5, 5)]\<rparr>
               (timeoutFires 0 accept_all False 16 None (constructor DEFAULT_SETTINGS 0))) = Some 1 \<and>
   settlingRanges (update accept_all False 100 \<lparr>docChanged = True, changes = [(5, 6, 5, 5)]\<rparr>
               (timeoutFires 0 accept_all False 16 None (constructor DEFAULT_SETTINGS 0))) = []"
  by (simp add: timer_defs run_defs)

section \<open>The timer and the empty working set\<close>

lemma removeAll_only:
  "set xs \<subseteq> {a} \<Longrightarrow> removeAll a xs = []"
  by (induction xs) auto

lemma timer_inv_scheduleCleanup:
  "timer_inv w \<Longrightarrow> timeouts (scheduleCleanup w) = [nextTimeout w]"
  by (auto simp: timer_inv_def scheduleCleanup_timeouts removeAll_only split: option.splits)

lemma timer_inv_scheduleCleanup':
  "timer_inv w \<Longrightarrow> timer_inv (scheduleCleanup w)"
  by (simp add: timer_inv_def [of "scheduleCleanup w"] timer_inv_scheduleCleanup scheduleCleanup_frame)

lemma timer_inv_rebuild:
  "timer_inv w \<Longrightarrow>
   timer_inv ((snd (buildDecorations add isDark now w))\<lparr>decorations := d\<rparr>)"
  by (simp add: timer_inv_def buildDecorations_frame)

lemma timer_inv_update:
  "timer_inv w \<Longrightarrow> timer_inv (update add isDark now u w)"
proof (cases "docChanged u")
  case False
  assume "timer_inv w"
  then show ?thesis
    using False by (simp add: update_unchanged_doc timer_inv_rebuild)
next
  case True
  assume inv: "timer_inv w"
  have a: "timer_inv (if settlingRanges w \<noteq> []
                then (snd (buildDecorations add isDark now w))
                       \<lparr>decorations := fst (buildDecorations add isDark now w)\<rparr>
                else w)" (is "timer_inv ?w1")
    using inv by (simp add: timer_inv_rebuild)
  have b: "timer_inv (?w1\<lparr>settlingRanges := rs\<rparr>)" for rs
    using a by (simp add: timer_inv_def)
  show ?thesis
    using True
    by (simp only: update_changed_doc Let_def)
       (intro timer_inv_scheduleCleanup' timer_inv_rebuild b)
qed

lemma timer_inv_timeoutFires:
  assumes "timer_inv w"
  shows "timer_inv (timeoutFires tid add isDark now reentry w)"
proof (cases "tid \<in> set (timeouts w)")
  case False
  then show ?thesis using assms by (simp add: timeoutFires_def)
next
  case True
  have a: "timer_inv (w\<lparr>timeouts := removeAll tid (timeouts w)\<rparr>)" (is "timer_inv ?w0")
    using assms by (auto simp: timer_inv_def)
  have b: "timer_inv ((snd (buildDecorations add isDark now ?w0))
                        \<lparr>decorations := fst (buildDecorations add isDark now ?w0)\<rparr>)"
    (is "timer_inv ?w1")
    using a by (rule timer_inv_rebuild)
  have c: "timer_inv (view_update_empty add isDark reentry ?w1)"
    using b by (simp add: view_update_empty_def timer_inv_update split: option.splits)
  show ?thesis
    using True c
    by (simp add: timeoutFires_def cleanupCallback_def case_prod_unfold Let_def
        timer_inv_scheduleCleanup')
qed

lemma timer_inv_step:
  "timer_inv w \<Longrightarrow> timer_inv (step w e)"
proof (cases e)
  case (Update add isDark now u)
  assume "timer_inv w"
  then show ?thesis using Update by (simp add: timer_inv_update)
next
  case (Timeout tid add isDark now reentry)
  assume "timer_inv w"
  then show ?thesis using Timeout by (simp add: timer_inv_timeoutFires)
next
  case (UpdateSettings st)
  assume "timer_inv w"
  then show ?thesis using UpdateSettings by (simp add: timer_inv_def updateSettings_def)
next
  case Destroy
  assume "timer_inv w"
  then show ?thesis
    using Destroy by (auto simp: timer_inv_def destroy_def clearTimeout_def split: option.splits)
qed

lemma timer_inv_run:
  "timer_inv w \<Longrightarrow> timer_inv (run w es)"
  unfolding run_def
  by (induction es arbitrary: w) (simp_all add: timer_inv_step)

lemma timer_inv_constructor:
  "timer_inv (constructor st n)"
  by (simp add: timer_inv_def constructor_def scheduleCleanup_def setTimeout_def)

text \<open>A plugin with no interval and no pending timeout stays so until a document change.\<close>

lemma idle_step:
  assumes "settlingRanges w = []" and "timeouts w = []" and "\<not> docChange e"
  shows "settlingRanges (step w e) = [] \<and> timeouts (step w e) = []"
proof (cases e)
  case (Update add isDark now u)
  then show ?thesis using assms by (simp add: update_unchanged_doc)
next
  case (Timeout tid add isDark now reentry)
  then show ?thesis using assms by (simp add: timeoutFires_def)
next
  case (UpdateSettings st)
  then show ?thesis using assms by (simp add: updateSettings_def)
next
  case Destroy
  then show ?thesis using assms by (simp add: destroy_def clearTimeout_def split: option.splits)
qed

lemma idle_run:
  assumes "settlingRanges w = []" and "timeouts w = []" and "\<forall>e \<in> set es. \<not> docChange e"
  shows "settlingRanges (run w es) = [] \<and> timeouts (run w es) = []"
  using assms unfolding run_def
proof (induction es arbitrary: w)
  case Nil
  then show ?case by simp
next
  case (Cons e es)
  have "settlingRanges (step w e) = [] \<and> timeouts (step w e) = []"
    using Cons.prems by (intro idle_step) simp_all
  then show ?case
    using Cons.IH [of "step w e"] Cons.prems(3) by simp
qed

text \<open>A timeout that finds nothing left after its pass sets no further timeout.\<close>

lemma empty_tick:
  assumes inv: "timer_inv w" and tid: "tid \<in> set (timeouts w)"
    and empty: "settlingRanges (snd (buildDecorations add isDark now w)) = []"
  shows "settlingRanges (timeoutFires tid add isDark now reentry w) = [] \<and>
         timeouts (timeoutFires tid add isDark now reentry w) = []"
proof -
  let ?w0 = "w\<lparr>timeouts := removeAll tid (timeouts w)\<rparr>"
  let ?w1 = "(snd (buildDecorations add isDark now ?w0))
               \<lparr>decorations := fst (buildDecorations add isDark now ?w0)\<rparr>"
  have t0: "timeouts ?w0 = []"
  proof (cases "cleanupTimer w")
    case None
    then show ?thesis using inv tid by (simp add: timer_inv_def)
  next
    case (Some a)
    then have sub: "set (timeouts w) \<subseteq> {a}"
      using inv by (simp add: timer_inv_def)
    then have "tid = a" using tid by auto
    then show ?thesis using sub by (simp add: removeAll_only)
  qed
  have r1: "settlingRanges ?w1 = []"
    using empty by (simp add: buildDecorations_def case_prod_unfold)
  have t1: "timeouts ?w1 = []"
    using t0 by (simp add: buildDecorations_frame)
  have v: "view_update_empty add isDark reentry ?w1 = ?w1"
    using r1 by (simp add: view_update_empty_def update_unchanged_doc split: option.splits)
  have "timeoutFires tid add isDark now reentry w = ?w1"
    using tid r1 by (simp add: timeoutFires_def cleanupCallback_def case_prod_unfold Let_def v)
  then show ?thesis
    using r1 t1 by simp
qed

text \<open>
  Claim C9, amended. Take a plugin in any state reached from its construction. When a
  timeout fires and its pass leaves the working set empty, no timeout is pending
  afterwards, and none becomes pending (so no tick runs) under any further events that
  are not document changes; the working set stays empty meanwhile. The next update
  with \<open>docChanged\<close> set, whether it inserts text or not, sets exactly one timeout.
\<close>

theorem timer_stops_when_empty:
  assumes "w = run (constructor st n) es"
    and "tid \<in> set (timeouts w)"
    and "settlingRanges (snd (buildDecorations add isDark now w)) = []"
    and "\<forall>e \<in> set es'. \<not> docChange e"
  shows "timeouts (run (timeoutFires tid add isDark now reentry w) es') = [] \<and>
         settlingRanges (run (timeoutFires tid add isDark now reentry w) es') = [] \<and>
         (docChanged u \<longrightarrow>
            timeouts (update add' isDark' now' u
                        (run (timeoutFires tid add isDark now reentry w) es'))
              = [nextTimeout (run (timeoutFires tid add isDark now reentry w) es')])"
proof -
  let ?w' = "run (timeoutFires tid add isDark now reentry w) es'"
  have inv: "timer_inv w"
    unfolding assms(1) by (intro timer_inv_run timer_inv_constructor)
  have tick: "settlingRanges (timeoutFires tid add isDark now reentry w) = [] \<and>
         timeouts (timeoutFires tid add isDark now reentry w) = []"
    using inv assms(2,3) by (rule empty_tick)
  have idle: "settlingRanges ?w' = [] \<and> timeouts ?w' = []"
    using tick assms(4) by (intro idle_run) simp_all
  have inv': "timer_inv ?w'"
    using inv by (intro timer_inv_run timer_inv_timeoutFires)
  have "timeouts (update add' isDark' now' u ?w') = [nextTimeout ?w']" if "docChanged u"
  proof -
    have "timer_inv ((snd (buildDecorations add' isDark' now' w2))\<lparr>decorations := d\<rparr>)"
      if "timer_inv w2" for w2 d
      using that by (rule timer_inv_rebuild)
    moreover have "timer_inv (?w'\<lparr>settlingRanges := rs\<rparr>)" for rs
      using inv' by (simp add: timer_inv_def)
    ultimately show ?thesis
      using that idle
      by (simp add: update_changed_doc Let_def timer_inv_scheduleCleanup buildDecorations_frame)
  qed
  then show ?thesis
    using idle by simp
qed

theorem timer_stops_when_empty_witness:
  "timeouts (run (constructor DEFAULT_SETTINGS 0)
      [Update accept_all False 0 \<lparr>docChanged = True, changes = [(3, 3, 3, 4)]\<rparr>]) = [1] \<and>
   timeouts (run (timeoutFires 1 accept_all False 2000 None
        (run (constructor DEFAULT_SETTINGS 0)
           [Update accept_all False 0 \<lparr>docChanged = True, changes = [(3, 3, 3, 4)]\<rparr>]))
      [Update accept_all False 2500 \<lparr>docChanged = False, changes = []\<rparr>,
       Timeout 1 accept_all False 2516 None,
       UpdateSettings DEFAULT_SETTINGS]) = [] \<and>
   timeouts (update accept_all False 3000 \<lparr>docChanged = True, changes = [(7, 7, 7, 8)]\<rparr>
      (run (timeoutFires 1 accept_all False 2000 None
        (run (constructor DEFAULT_SETTINGS 0)
           [Update accept_all False 0 \<lparr>docChanged = True, changes = [(3, 3, 3, 4)]\<rparr>]))
      [Update accept_all False 2500 \<lparr>docChanged = False, changes = []\<rparr>,
       Timeout 1 accept_all False 2516 None,
       UpdateSettings DEFAULT_SETTINGS])) = [2]"
proof -
  let ?es = "[Update accept_all False 0 \<lparr>docChanged = True, changes = [(3, 3, 3, 4)]\<rparr>]"
  let ?w = "run (constructor DEFAULT_SETTINGS 0) ?es"
  let ?es' = "[Update accept_all False 2500 \<lparr>docChanged = False, changes = []\<rparr>,
       Timeout 1 accept_all False 2516 None,
       UpdateSettings DEFAULT_SETTINGS]"
  have w: "?w = \<lparr>decorations = [(3, 4, Mark ''settling-text'' (Opacity (Finite (3 / 5))))],
       settlingRanges = [\<lparr>range_from = 3, range_to = 4, timestamp = 0\<rparr>],
       cleanupTimer = Some 1, settings = DEFAULT_SETTINGS, timeouts = [1], nextTimeout = 2\<rparr>"
    by (simp add: timer_defs run_defs)
  have h2: "1 \<in> set (timeouts ?w)"
    unfolding w by simp
  have h3: "settlingRanges (snd (buildDecorations accept_all False 2000 ?w)) = []"
    unfolding w by (simp add: run_defs)
  have h4: "\<forall>e \<in> set ?es'. \<not> docChange e"
    by simp
  have next_id: "nextTimeout (run (timeoutFires 1 accept_all False 2000 None ?w) ?es') = 2"
    unfolding w by (simp add: timer_defs run_defs updateSettings_def)
  show ?thesis
    using timer_stops_when_empty [OF refl h2 h3 h4,
        where u = "\<lparr>docChanged = True, changes = [(7, 7, 7, 8)]\<rparr>" and reentry = None
          and add' = accept_all and isDark' = False and now' = 3000]
    unfolding next_id by (simp add: w)
qed

text \<open>
  Claim C9, as stated, fails: after the tick that emptied the working set, the next
  timeout is set by any document change, not only by an insertion. Below, one character
  is inserted at time 0, the tick at time 2000 prunes it and leaves no timeout pending;
  the update at time 3000 reports a deletion only (\<open>toB = fromB\<close>), and timeout 2 is
  pending after it and runs its callback at time 3016.
\<close>

theorem timer_restart_counterexample:
  "settlingRanges (run (constructor DEFAULT_SETTINGS 0)
      [Update accept_all False 0 \<lparr>docChanged = True, changes = [(3, 3, 3, 4)]\<rparr>,
       Timeout 1 accept_all False 2000 None]) = [] \<and>
   timeouts (run (constructor DEFAULT_SETTINGS 0)
      [Update accept_all False 0 \<lparr>docChanged = True, changes = [(3, 3, 3, 4)]\<rparr>,
       Timeout 1 accept_all False 2000 None]) = [] \<and>
   settlingRanges (run (constructor DEFAULT_SETTINGS 0)
      [Update accept_all False 0 \<lparr>docChanged = True, changes = [(3, 3, 3, 4)]\<rparr>,
       Timeout 1 accept_all False 2000 None,
       Update accept_all False 3000 \<lparr>docChanged = True, changes = [(3, 4, 3, 3)]\<rparr>]) = [] \<and>
   timeouts (run (constructor DEFAULT_SETTINGS 0)
      [Update accept_all False 0 \<lparr>docChanged = True, changes = [(3, 3, 3, 4)]\<rparr>,
       Timeout 1 accept_all False 2000 None,
       Update accept_all False 3000 \<lparr>docChanged = True, changes = [(3, 4, 3, 3)]\<rparr>]) = [2] \<and>
   run (constructor DEFAULT_SETTINGS 0)
      [Update accept_all False 0 \<lparr>docChanged = True, changes = [(3, 3, 3, 4)]\<rparr>,
       Timeout 1 accept_all False 2000 None,
       Update accept_all False 3000 \<lparr>docChanged = True, changes = [(3, 4, 3, 3)]\<rparr>,
       Timeout 2 accept_all False 3016 None] =
     cleanupCallback accept_all False 3016 None
       \<lparr>decorations = [], settlingRanges = [], cleanupTimer = Some 2,
        settings = DEFAULT_SETTINGS, timeouts = [], nextTimeout = 3\<rparr>"
  by (simp add: timer_defs run_defs)

section \<open>What a pass renders\<close>

lemma createSettlingMark_Finite:
  "createSettlingMark st isDark (Finite p) =
     styled_mark isDark ((1 - intensity st) + p * intensity st)"
  by (simp add: createSettlingMark_def styled_mark_def)

text \<open>The decorations of a pass are those of its survivors, one each, in order.\<close>

lemma buildDecorations_paints:
  "fst (buildDecorations add isDark now w) =
     map (\<lambda>r. (range_from r, range_to r,
                createSettlingMark (settings w) isDark (progress (settings w) now r)))
       (settlingRanges (snd (buildDecorations add isDark now w)))"
  using filterRanges_paints [of add "settings w" isDark now "[]" "settlingRanges w"]
  by (simp add: buildDecorations_def case_prod_unfold)

text \<open>An interval that is young enough and that the editor accepts is kept and rendered.\<close>

lemma buildDecorations_renders:
  assumes ws: "settlingRanges w = pre @ r # post"
    and young: "real_of_int (now - timestamp r) \<le> transitionDuration (settings w) * 1000"
    and acc: "add (fst (buildDecorations add isDark now (w\<lparr>settlingRanges := pre\<rparr>)))
                (range_from r, range_to r,
                 createSettlingMark (settings w) isDark (progress (settings w) now r))"
  shows "r \<in> set (settlingRanges (snd (buildDecorations add isDark now w))) \<and>
         (range_from r, range_to r,
            createSettlingMark (settings w) isDark (progress (settings w) now r))
           \<in> set (fst (buildDecorations add isDark now w))"
proof -
  let ?st = "settings w"
  let ?b1 = "snd (filterRanges add ?st isDark now [] pre)"
  have keep: "fst (filterCallback add ?st isDark now ?b1 r)"
    using young acc
    by (simp add: filterCallback_def Let_def age_def totalDuration_def buildDecorations_def
        case_prod_unfold)
  have "r \<in> set (fst (filterRanges add ?st isDark now ?b1 (r # post)))"
    using keep by (simp add: fst_filterRanges_Cons)
  then have "r \<in> set (fst (filterRanges add ?st isDark now [] (pre @ r # post)))"
    by (simp add: filterRanges_append [of _ _ _ _ _ pre])
  then have surv: "r \<in> set (settlingRanges (snd (buildDecorations add isDark now w)))"
    using ws by (simp add: buildDecorations_def case_prod_unfold)
  show ?thesis
    using surv by (simp add: buildDecorations_paints [of add isDark now w] image_iff) blast
qed

text \<open>A single insertion reported at time \<open>now\<close> that the editor accepts.\<close>

lemma update_insertion:
  assumes td: "0 \<le> transitionDuration (settings w)"
    and u: "docChanged u" "changes u = [(fromA, toA, fromB, toB)]" "fromB < toB"
    and acc: "add (fst (buildDecorations add isDark now w))
                (fromB, toB,
                 createSettlingMark (settings w) isDark
                   (progress (settings w) now
                      \<lparr>range_from = fromB, range_to = toB, timestamp = now\<rparr>))"
  shows "settlingRanges (update add isDark now u w) =
           settlingRanges (snd (buildDecorations add isDark now w)) @
             [\<lparr>range_from = fromB, range_to = toB, timestamp = now\<rparr>] \<and>
         decorations (update add isDark now u w) =
           fst (buildDecorations add isDark now w) @
             [(fromB, toB,
               createSettlingMark (settings w) isDark
                 (progress (settings w) now
                    \<lparr>range_from = fromB, range_to = toB, timestamp = now\<rparr>))]"
proof -
  let ?st = "settings w"
  let ?new = "\<lparr>range_from = fromB, range_to = toB, timestamp = now\<rparr>"
  let ?rs = "fst (filterRanges add ?st isDark now [] (settlingRanges w))"
  let ?b = "snd (filterRanges add ?st isDark now [] (settlingRanges w))"
  define w1 where "w1 = (if settlingRanges w \<noteq> []
                then (snd (buildDecorations add isDark now w))
                       \<lparr>decorations := fst (buildDecorations add isDark now w)\<rparr>
                else w)"
  have r1: "settlingRanges w1 = ?rs"
    by (simp add: w1_def buildDecorations_def case_prod_unfold)
  have s1: "settings w1 = ?st"
    by (simp add: w1_def buildDecorations_frame)
  have again: "filterRanges add ?st isDark now [] ?rs = (?rs, ?b)"
    by (simp add: filterRanges_again)
  have keep: "filterCallback add ?st isDark now ?b ?new =
      (True, ?b @ [(fromB, toB, createSettlingMark ?st isDark (progress ?st now ?new))])"
    using td acc
    by (simp add: filterCallback_def Let_def age_def totalDuration_def buildDecorations_def
        case_prod_unfold)
  have pass: "filterRanges add ?st isDark now [] (?rs @ [?new]) =
      (?rs @ [?new], ?b @ [(fromB, toB, createSettlingMark ?st isDark (progress ?st now ?new))])"
    by (simp add: filterRanges_append [of _ _ _ _ _ ?rs] again prod_eq_iff
        fst_filterRanges_Cons snd_filterRanges_Cons keep)
  have upd: "update add isDark now u w =
      (let w2 = w1\<lparr>settlingRanges := ?rs @ [?new]\<rparr>
       in scheduleCleanup ((snd (buildDecorations add isDark now w2))
                            \<lparr>decorations := fst (buildDecorations add isDark now w2)\<rparr>))"
    using u by (simp add: update_changed_doc Let_def w1_def [symmetric] r1 trackChange_def)
  show ?thesis
    by (simp add: upd Let_def scheduleCleanup_frame buildDecorations_def s1 pass
        case_prod_unfold)
qed

text \<open>
  Claim C3. The duration is positive. A pass emits one decoration per interval it
  keeps, made by \<open>createSettlingMark\<close> from that interval's progress, and for a progress
  \<open>p\<close> and intensity \<open>i\<close> its value is \<open>(1 - i) + p * i\<close>, a brightness in dark mode
  and an opacity in light mode. An interval of the working set that is within the
  duration and that the editor accepts is kept, and its decoration with that value is
  among those emitted; at an age of exactly \<open>transitionDuration * 1000\<close> its progress
  is 1 and the value 1. An update that reports one insertion at time \<open>now\<close>, accepted by
  the editor, tracks it with a progress of 0 and stores its decoration with the
  value \<open>1 - i\<close>, after those of the intervals kept.
\<close>

theorem settling_style_linear:
  assumes td: "0 < transitionDuration (settings w)"
  shows
    "fst (buildDecorations add isDark now w) =
       map (\<lambda>r. (range_from r, range_to r,
                  createSettlingMark (settings w) isDark (progress (settings w) now r)))
         (settlingRanges (snd (buildDecorations add isDark now w))) \<and>
     createSettlingMark (settings w) isDark (Finite p) =
       styled_mark isDark ((1 - intensity (settings w)) + p * intensity (settings w)) \<and>
     (settlingRanges w = pre @ r # post \<and>
      real_of_int (now - timestamp r) \<le> transitionDuration (settings w) * 1000 \<and>
      progress (settings w) now r = Finite q \<and>
      add (fst (buildDecorations add isDark now (w\<lparr>settlingRanges := pre\<rparr>)))
        (range_from r, range_to r,
         styled_mark isDark ((1 - intensity (settings w)) + q * intensity (settings w))) \<longrightarrow>
        r \<in> set (settlingRanges (snd (buildDecorations add isDark now w))) \<and>
        (range_from r, range_to r,
         styled_mark isDark ((1 - intensity (settings w)) + q * intensity (settings w)))
          \<in> set (fst (buildDecorations add isDark now w))) \<and>
     (settlingRanges w = pre @ r # post \<and>
      real_of_int (now - timestamp r) = transitionDuration (settings w) * 1000 \<and>
      add (fst (buildDecorations add isDark now (w\<lparr>settlingRanges := pre\<rparr>)))
        (range_from r, range_to r, styled_mark isDark 1) \<longrightarrow>
        progress (settings w) now r = Finite 1 \<and>
        r \<in> set (settlingRanges (snd (buildDecorations add isDark now w))) \<and>
        (range_from r, range_to r, styled_mark isDark 1)
          \<in> set (fst (buildDecorations add isDark now w))) \<and>
     (docChanged u \<and> changes u = [(fromA, toA, fromB, toB)] \<and> fromB < toB \<and>
      add (fst (buildDecorations add isDark now w))
        (fromB, toB, styled_mark isDark (1 - intensity (settings w))) \<longrightarrow>
        progress (settings w) now \<lparr>range_from = fromB, range_to = toB, timestamp = now\<rparr>
          = Finite 0 \<and>
        settlingRanges (update add isDark now u w) =
          settlingRanges (snd (buildDecorations add isDark now w)) @
            [\<lparr>range_from = fromB, range_to = toB, timestamp = now\<rparr>] \<and>
        decorations (update add isDark now u w) =
          fst (buildDecorations add isDark now w) @
            [(fromB, toB, styled_mark isDark (1 - intensity (settings w)))])"
proof -
  let ?st = "settings w"
  have nz: "transitionDuration ?st \<noteq> 0"
    using td by simp
  have full: "progress ?st now r = Finite 1"
    if "real_of_int (now - timestamp r) = transitionDuration ?st * 1000"
    using that nz by (simp add: progress_finite)
  have fresh: "progress ?st now \<lparr>range_from = fromB, range_to = toB, timestamp = now\<rparr> = Finite 0"
    using nz by (simp add: progress_finite)
  have c1: "fst (buildDecorations add isDark now w) =
       map (\<lambda>r. (range_from r, range_to r,
                  createSettlingMark ?st isDark (progress ?st now r)))
         (settlingRanges (snd (buildDecorations add isDark now w)))"
    by (rule buildDecorations_paints)
  have c2: "createSettlingMark ?st isDark (Finite p) =
       styled_mark isDark ((1 - intensity ?st) + p * intensity ?st)"
    by (rule createSettlingMark_Finite)
  have c3: "r \<in> set (settlingRanges (snd (buildDecorations add isDark now w))) \<and>
        (range_from r, range_to r,
         styled_mark isDark ((1 - intensity ?st) + q * intensity ?st))
          \<in> set (fst (buildDecorations add isDark now w))"
    if "settlingRanges w = pre @ r # post"
      and "real_of_int (now - timestamp r) \<le> transitionDuration ?st * 1000"
      and "progress ?st now r = Finite q"
      and "add (fst (buildDecorations add isDark now (w\<lparr>settlingRanges := pre\<rparr>)))
        (range_from r, range_to r,
         styled_mark isDark ((1 - intensity ?st) + q * intensity ?st))"
    using buildDecorations_renders [of w pre r post now add isDark] that
    by (simp add: createSettlingMark_Finite)
  have c4: "progress ?st now r = Finite 1 \<and>
        r \<in> set (settlingRanges (snd (buildDecorations add isDark now w))) \<and>
        (range_from r, range_to r, styled_mark isDark 1)
          \<in> set (fst (buildDecorations add isDark now w))"
    if "settlingRanges w = pre @ r # post"
      and "real_of_int (now - timestamp r) = transitionDuration ?st * 1000"
      and "add (fst (buildDecorations add isDark now (w\<lparr>settlingRanges := pre\<rparr>)))
        (range_from r, range_to r, styled_mark isDark 1)"
    using buildDecorations_renders [of w pre r post now add isDark] that full
    by (simp add: createSettlingMark_Finite)
  have c5: "progress ?st now \<lparr>range_from = fromB, range_to = toB, timestamp = now\<rparr>
          = Finite 0 \<and>
        settlingRanges (update add isDark now u w) =
          settlingRanges (snd (buildDecorations add isDark now w)) @
            [\<lparr>range_from = fromB, range_to = toB, timestamp = now\<rparr>] \<and>
        decorations (update add isDark now u w) =
          fst (buildDecorations add isDark now w) @
            [(fromB, toB, styled_mark isDark (1 - intensity ?st))]"
    if "docChanged u" and "changes u = [(fromA, toA, fromB, toB)]" and "fromB < toB"
      and "add (fst (buildDecorations add isDark now w))
        (fromB, toB, styled_mark isDark (1 - intensity ?st))"
    using update_insertion [of w u fromA toA fromB toB add isDark now] that td fresh
    by (simp add: createSettlingMark_Finite)
  show ?thesis
    using c1 c2 c3 c4 c5 by blast
qed

theorem settling_style_linear_witness:
  "fst (buildDecorations sorted_add False 1500
      \<lparr>decorations = [],
       settlingRanges = [\<lparr>range_from = 0, range_to = 5, timestamp = 0\<rparr>],
       cleanupTimer = Some 1, settings = DEFAULT_SETTINGS, timeouts = [1], nextTimeout = 2\<rparr>) =
     [(0, 5, Mark ''settling-text'' (Opacity (Finite 1)))] \<and>
   createSettlingMark DEFAULT_SETTINGS False (Finite (1 / 2)) =
     Mark ''settling-text'' (Opacity (Finite (4 / 5))) \<and>
   decorations (update sorted_add False 1500
      \<lparr>docChanged = True, changes = [(5, 5, 5, 6)]\<rparr>
      \<lparr>decorations = [],
       settlingRanges = [\<lparr>range_from = 0, range_to = 5, timestamp = 0\<rparr>],
       cleanupTimer = Some 1, settings = DEFAULT_SETTINGS, timeouts = [1], nextTimeout = 2\<rparr>) =
     [(0, 5, Mark ''settling-text'' (Opacity (Finite 1))),
      (5, 6, Mark ''settling-text'' (Opacity (Finite (3 / 5))))] \<and>
   settlingRanges (update sorted_add False 1500
      \<lparr>docChanged = True, changes = [(5, 5, 5, 6)]\<rparr>
      \<lparr>decorations = [],
       settlingRanges = [\<lparr>range_from = 0, range_to = 5, timestamp = 0\<rparr>],
       cleanupTimer = Some 1, settings = DEFAULT_SETTINGS, timeouts = [1], nextTimeout = 2\<rparr>) =
     [\<lparr>range_from = 0, range_to = 5, timestamp = 0\<rparr>,
      \<lparr>range_from = 5, range_to = 6, timestamp = 1500\<rparr>]"
proof -
  let ?r = "\<lparr>range_from = 0, range_to = 5, timestamp = 0\<rparr>"
  let ?w = "\<lparr>decorations = [], settlingRanges = [?r],
       cleanupTimer = Some 1, settings = DEFAULT_SETTINGS, timeouts = [1], nextTimeout = 2\<rparr>"
  let ?u = "\<lparr>docChanged = True, changes = [(5, 5, 5, 6)]\<rparr>"
  have td: "0 < transitionDuration (settings ?w)"
    by (simp add: DEFAULT_SETTINGS_def)
  have bd: "fst (buildDecorations sorted_add False 1500 ?w) =
      [(0, 5, Mark ''settling-text'' (Opacity (Finite 1)))]"
    by (simp add: run_defs)
  have sv: "settlingRanges (snd (buildDecorations sorted_add False 1500 ?w)) = [?r]"
    by (simp add: run_defs)
  have i: "intensity (settings ?w) = 2 / 5"
    by (simp add: DEFAULT_SETTINGS_def)
  have acc: "sorted_add (fst (buildDecorations sorted_add False 1500 ?w))
      (5, 6, styled_mark False (1 - intensity (settings ?w)))"
    unfolding bd by (simp add: sorted_add_def)
  have u: "docChanged ?u \<and> changes ?u = [(5, 5, 5, 6)] \<and> (5::int) < 6"
    by simp
  have th: "decorations (update sorted_add False 1500 ?u ?w) =
          fst (buildDecorations sorted_add False 1500 ?w) @
            [(5, 6, styled_mark False (1 - intensity (settings ?w)))] \<and>
        settlingRanges (update sorted_add False 1500 ?u ?w) =
          settlingRanges (snd (buildDecorations sorted_add False 1500 ?w)) @
            [\<lparr>range_from = 5, range_to = 6, timestamp = 1500\<rparr>] \<and>
        createSettlingMark (settings ?w) False (Finite (1 / 2)) =
          styled_mark False ((1 - intensity (settings ?w)) + 1 / 2 * intensity (settings ?w))"
    using settling_style_linear [OF td, where add = sorted_add and isDark = False
        and now = 1500 and u = ?u and fromA = 5 and toA = 5 and fromB = 5 and toB = 6
        and p = "1 / 2"] acc u
    by blast
  show ?thesis
    using th unfolding bd sv i by (simp add: styled_mark_def)
qed

section \<open>Overlapping insertions\<close>

text \<open>
  Claim C6. The source departs from it under the editor library's rule. Every
  insertion is pushed to the working set, and the pass offers the intervals to the
  builder in the order of their insertion, not of their positions. Text is inserted
  at 10 to 15 at time 0, then at 8 to 12 at time 500: the second range starts before
  the first, \<open>builder.add\<close> throws, the \<open>catch\<close> meant for ranges invalid after edits
  returns \<open>false\<close>, and the second interval is dropped in the very update that
  reported it. One interval is tracked and one decoration emitted at time 750.
\<close>

theorem overlapping_insertion_dropped:
  "settlingRanges
     (update sorted_add False 500 \<lparr>docChanged = True, changes = [(8, 8, 8, 12)]\<rparr>
        (update sorted_add False 0 \<lparr>docChanged = True, changes = [(10, 10, 10, 15)]\<rparr>
           (constructor DEFAULT_SETTINGS 0))) =
     [\<lparr>range_from = 10, range_to = 15, timestamp = 0\<rparr>] \<and>
   decorations
     (update sorted_add False 500 \<lparr>docChanged = True, changes = [(8, 8, 8, 12)]\<rparr>
        (update sorted_add False 0 \<lparr>docChanged = True, changes = [(10, 10, 10, 15)]\<rparr>
           (constructor DEFAULT_SETTINGS 0))) =
     [(10, 15, Mark ''settling-text'' (Opacity (Finite (11 / 15))))] \<and>
   fst (buildDecorations sorted_add False 750
     (update sorted_add False 500 \<lparr>docChanged = True, changes = [(8, 8, 8, 12)]\<rparr>
        (update sorted_add False 0 \<lparr>docChanged = True, changes = [(10, 10, 10, 15)]\<rparr>
           (constructor DEFAULT_SETTINGS 0)))) =
     [(10, 15, Mark ''settling-text'' (Opacity (Finite (4 / 5))))] \<and>
   \<not> sorted_add [(10, 15, Mark ''settling-text'' (Opacity (Finite (11 / 15))))]
       (8, 12, Mark ''settling-text'' (Opacity (Finite (3 / 5))))"
  by (simp add: timer_defs run_defs)

text \<open>In the other order both insertions are tracked and rendered, each from its own timestamp.\<close>

lemma overlapping_insertion_kept:
  "settlingRanges
     (update sorted_add False 500 \<lparr>docChanged = True, changes = [(12, 12, 12, 14)]\<rparr>
        (update sorted_add False 0 \<lparr>docChanged = True, changes = [(10, 10, 10, 15)]\<rparr>
           (constructor DEFAULT_SETTINGS 0))) =
     [\<lparr>range_from = 10, range_to = 15, timestamp = 0\<rparr>,
      \<lparr>range_from = 12, range_to = 14, timestamp = 500\<rparr>] \<and>
   fst (buildDecorations sorted_add False 750
     (update sorted_add False 500 \<lparr>docChanged = True, changes = [(12, 12, 12, 14)]\<rparr>
        (update sorted_add False 0 \<lparr>docChanged = True, changes = [(10, 10, 10, 15)]\<rparr>
           (constructor DEFAULT_SETTINGS 0)))) =
     [(10, 15, Mark ''settling-text'' (Opacity (Finite (4 / 5)))),
      (12, 14, Mark ''settling-text'' (Opacity (Finite (2 / 3))))]"
  by (simp add: timer_defs run_defs)

end
